theory Spec2Isabelle
  imports Complex_Main
begin

section \<open>The swingby gravity simulation\<close>

text \<open>
  The repository holds two variants of the same program: the two-body program
  (\<^verbatim>\<open>main.go\<close>, one planet and one spacecraft) and the N-body program (a slice of
  space objects). Both are embedded here. Go's \<^verbatim>\<open>float64\<close> is read as \<^typ>\<open>real\<close>:
  the arithmetic is the exact one, rounding and the non-finite values of IEEE-754 are
  not part of the model. The exception are the force function and the velocity
  loops, which are embedded a second time with every result rounded, for the claims
  that are about exact equality, and a third time in exact arithmetic with the
  non-finite values, for the claim that is about bodies at the same position. The
  slice of the N-body program holds pointers; the model takes them to be non-nil and
  pairwise distinct (as \<^verbatim>\<open>NewGame\<close> builds them), so the slice is a list of records
  and an update through a pointer is an update of the list at that index. The image fields (\<^verbatim>\<open>img\<close>, \<^verbatim>\<open>pathImg\<close>, \<^verbatim>\<open>color\<close>) are only
  touched by the drawing code and are left out.
\<close>

subsection \<open>Vectors (both programs)\<close>

record Vector =
  X :: real
  Y :: real

text \<open>
  In exact arithmetic the squares neither underflow nor overflow, so \<open>Length\<close> is 0 for
  the zero vector only. \<open>Normalize\<close> of the zero vector divides by zero: in Go the result
  is \<^verbatim>\<open>NaN\<close>, here it is HOL's \<open>x / 0 = 0\<close>; statements about it are for vectors
  other than the zero vector.
\<close>

definition Length :: "Vector \<Rightarrow> real" where
  "Length v = sqrt (X v * X v + Y v * Y v)"

definition Normalize :: "Vector \<Rightarrow> Vector" where
  "Normalize v = (let len = Length v in \<lparr>X = X v / len, Y = Y v / len\<rparr>)"

definition Scale :: "Vector \<Rightarrow> real \<Rightarrow> real \<Rightarrow> Vector" where
  "Scale v xScale yScale = \<lparr>X = X v * xScale, Y = Y v * yScale\<rparr>"

definition Translate :: "Vector \<Rightarrow> real \<Rightarrow> real \<Rightarrow> Vector" where
  "Translate v dx dy = \<lparr>X = X v + dx, Y = Y v + dy\<rparr>"

text \<open>Go's integer division truncates towards zero.\<close>

definition quo :: "int \<Rightarrow> int \<Rightarrow> int" where
  "quo a b = sgn a * sgn b * (\<bar>a\<bar> div \<bar>b\<bar>)"

text \<open>The value of the returned \<^verbatim>\<open>error\<close>; \<open>None\<close> is \<^verbatim>\<open>nil\<close>.\<close>

type_synonym error = string

definition gravitation :: real where
  "gravitation = 66743 / 10 ^ 15"

subsection \<open>The N-body program\<close>

record SpaceObject =
  name :: string
  mass :: real
  position :: Vector
  scaledPosition :: Vector
  velocity :: Vector

definition dt :: real where
  "dt = 1 / 60 * 60 * 60 * 24 * 30"

definition XScale :: real where
  "XScale = 1 / 10 ^ 7"

definition YScale :: real where
  "YScale = 1 / 10 ^ 7"

record Game =
  screenWidth :: int
  screenHeight :: int
  spaceObjects :: "SpaceObject list"
  time :: real

text \<open>
  For a body of mass zero the Go method divides by zero; here the quotient is HOL's
  \<open>x / 0 = 0\<close>, so the function is the Go method for masses other than zero.
\<close>

definition UpdateVelocity :: "SpaceObject \<Rightarrow> Vector \<Rightarrow> SpaceObject" where
  "UpdateVelocity so force =
     so\<lparr>velocity := \<lparr>X = X (velocity so) + (X force / mass so) * dt,
                       Y = Y (velocity so) + (Y force / mass so) * dt\<rparr>\<rparr>"

definition UpdatePosition :: "SpaceObject \<Rightarrow> SpaceObject" where
  "UpdatePosition so =
     so\<lparr>position := \<lparr>X = X (position so) + X (velocity so) * dt,
                       Y = Y (position so) + Y (velocity so) * dt\<rparr>\<rparr>"

text \<open>
  For two bodies at the same position the Go function divides by zero and returns
  \<^verbatim>\<open>NaN\<close>; the real-valued function below has HOL's \<open>x / 0 = 0\<close> there, so it is the
  Go function for bodies at distinct positions only. The embedding with the non-finite
  values further down covers bodies at the same position.
\<close>

definition calculateGravitationalForce :: "SpaceObject \<Rightarrow> SpaceObject \<Rightarrow> Vector" where
  "calculateGravitationalForce so1 so2 =
     (let distanceVector = \<lparr>X = X (position so1) - X (position so2),
                             Y = Y (position so1) - Y (position so2)\<rparr>;
          distance = Length distanceVector;
          gravForce = (gravitation * mass so2 * mass so1) / (distance * distance);
          forceDirection = Normalize distanceVector
      in \<lparr>X = - gravForce * X forceDirection, Y = - gravForce * Y forceDirection\<rparr>)"

text \<open>
  One round of the inner loop of \<^verbatim>\<open>Update\<close>, for the indices \<open>i\<close> and \<open>j\<close>: both
  objects are read through their pointers, that is from the current list, and the
  velocity of object \<open>i\<close> is written back.
\<close>

definition pairStep :: "nat \<Rightarrow> SpaceObject list \<Rightarrow> nat \<Rightarrow> SpaceObject list" where
  "pairStep i objs j =
     (if j = i then objs
      else (let force = calculateGravitationalForce (objs ! i) (objs ! j)
            in objs[i := UpdateVelocity (objs ! i) force]))"

definition innerLoop :: "SpaceObject list \<Rightarrow> nat \<Rightarrow> SpaceObject list" where
  "innerLoop objs i = foldl (pairStep i) objs [0..<length objs]"

definition velocityLoop :: "SpaceObject list \<Rightarrow> SpaceObject list" where
  "velocityLoop objs = foldl innerLoop objs [0..<length objs]"

definition positionStep :: "int \<Rightarrow> int \<Rightarrow> SpaceObject \<Rightarrow> SpaceObject" where
  "positionStep w h so =
     (let so' = UpdatePosition so
      in so'\<lparr>scaledPosition :=
               Translate (Scale (position so') XScale YScale)
                 (real_of_int (quo w 2)) (real_of_int (quo h 2))\<rparr>)"

definition positionLoop :: "int \<Rightarrow> int \<Rightarrow> SpaceObject list \<Rightarrow> SpaceObject list" where
  "positionLoop w h objs = map (positionStep w h) objs"

definition Update :: "Game \<Rightarrow> error option \<times> Game" where
  "Update g =
     (None,
      g\<lparr>spaceObjects :=
           positionLoop (screenWidth g) (screenHeight g) (velocityLoop (spaceObjects g)),
        time := time g + dt\<rparr>)"

subsection \<open>The two-body program\<close>

text \<open>
  \<^verbatim>\<open>Planet\<close> and \<^verbatim>\<open>Spacecraft\<close> are two structs with the same fields; the fields of
  the two-body program carry the suffix \<open>2\<close>, as do its constants and its \<^verbatim>\<open>Game\<close>.
\<close>

record Planet =
  mass2 :: real
  position2 :: Vector
  velocity2 :: Vector

type_synonym Spacecraft = Planet

definition dt2 :: real where
  "dt2 = 1 / 60 * 60 * 60 * 24"

record Game2 =
  screenWidth2 :: int
  screenHeight2 :: int
  planet :: Planet
  spacecraft :: Spacecraft
  time2 :: real

text \<open>
  Lines 99 to 120 of \<^verbatim>\<open>Update\<close>: the force on the spacecraft, where \<open>planetPos\<close> is
  the planet's position as read at line 97.
\<close>

definition force2 :: "Vector \<Rightarrow> Game2 \<Rightarrow> Vector" where
  "force2 planetPos g =
     (let pos = position2 (spacecraft g);
          distanceVector = \<lparr>X = X pos - X planetPos, Y = Y pos - Y planetPos\<rparr>;
          distance = Length distanceVector;
          gravForce = (gravitation * mass2 (planet g) * mass2 (spacecraft g))
                        / (distance * distance);
          forceDirection = Normalize distanceVector
      in \<lparr>X = - gravForce * X forceDirection, Y = - gravForce * Y forceDirection\<rparr>)"

definition Update2 :: "Game2 \<Rightarrow> error option \<times> Game2" where
  "Update2 g =
     (let planetPos = \<lparr>X = X (position2 (planet g)) + X (velocity2 (planet g)) * dt2,
                        Y = Y (position2 (planet g)) + Y (velocity2 (planet g)) * dt2\<rparr>;
          pos = position2 (spacecraft g);
          vel = velocity2 (spacecraft g);
          force = force2 planetPos g;
          vel' = \<lparr>X = X vel + (X force / mass2 (spacecraft g)) * dt2,
                   Y = Y vel + (Y force / mass2 (spacecraft g)) * dt2\<rparr>;
          pos' = \<lparr>X = X pos + X vel' * dt2, Y = Y pos + Y vel' * dt2\<rparr>
      in (None,
          g\<lparr>planet := (planet g)\<lparr>position2 := planetPos\<rparr>,
            spacecraft := (spacecraft g)\<lparr>velocity2 := vel', position2 := pos'\<rparr>,
            time2 := time2 g + dt2\<rparr>))"

subsection \<open>Notions of the specification\<close>

text \<open>
  The forces that act on body \<open>i\<close> of a body list, one for every other index, in
  index order, each computed from the list as given.
\<close>

definition forcesOn :: "SpaceObject list \<Rightarrow> nat \<Rightarrow> Vector list" where
  "forcesOn objs i =
     map (\<lambda>j. calculateGravitationalForce (objs ! i) (objs ! j))
       (filter (\<lambda>j. j \<noteq> i) [0..<length objs])"

definition vzero :: Vector where
  "vzero = \<lparr>X = 0, Y = 0\<rparr>"

definition vadd :: "Vector \<Rightarrow> Vector \<Rightarrow> Vector" where
  "vadd a b = \<lparr>X = X a + X b, Y = Y a + Y b\<rparr>"

text \<open>The net force of the specification: the sum of the forces of all other bodies.\<close>

definition NetForceOn :: "SpaceObject list \<Rightarrow> nat \<Rightarrow> Vector" where
  "NetForceOn objs i = foldl vadd vzero (forcesOn objs i)"

text \<open>
  The strict two-phase step of the specification: all net forces from the pre-step
  bodies, then all velocities, then all positions, then the clock.
\<close>

definition twoPhaseStep :: "Game \<Rightarrow> Game" where
  "twoPhaseStep g =
     (let objs = spaceObjects g;
          netForces = map (NetForceOn objs) [0..<length objs];
          moved = map2 UpdateVelocity objs netForces
      in g\<lparr>spaceObjects := positionLoop (screenWidth g) (screenHeight g) moved,
           time := time g + dt\<rparr>)"


text \<open>Total momentum, the sum of mass times velocity.\<close>

definition momentum :: "SpaceObject list \<Rightarrow> Vector" where
  "momentum objs =
     \<lparr>X = sum_list (map (\<lambda>so. mass so * X (velocity so)) objs),
      Y = sum_list (map (\<lambda>so. mass so * Y (velocity so)) objs)\<rparr>"

definition momentum2 :: "Game2 \<Rightarrow> Vector" where
  "momentum2 g =
     \<lparr>X = mass2 (planet g) * X (velocity2 (planet g))
            + mass2 (spacecraft g) * X (velocity2 (spacecraft g)),
      Y = mass2 (planet g) * Y (velocity2 (planet g))
            + mass2 (spacecraft g) * Y (velocity2 (spacecraft g))\<rparr>"

text \<open>Normal inputs: every mass positive, no two bodies at the same position.\<close>

definition normal :: "SpaceObject list \<Rightarrow> bool" where
  "normal objs = (list_all (\<lambda>so. 0 < mass so) objs \<and> distinct (map position objs))"

text \<open>The inputs stay normal during the first \<open>n\<close> updates.\<close>

fun normalRun :: "nat \<Rightarrow> Game \<Rightarrow> bool" where
  "normalRun 0 g = True"
| "normalRun (Suc n) g = (normal (spaceObjects g) \<and> normalRun n (snd (Update g)))"

text \<open>What the physics reads of a body, and of a game.\<close>

definition physics :: "SpaceObject \<Rightarrow> real \<times> Vector \<times> Vector" where
  "physics so = (mass so, position so, velocity so)"

definition samePhysics :: "Game \<Rightarrow> Game \<Rightarrow> bool" where
  "samePhysics g g' =
     (time g = time g' \<and> map physics (spaceObjects g) = map physics (spaceObjects g'))"

definition samePhysics2 :: "Game2 \<Rightarrow> Game2 \<Rightarrow> bool" where
  "samePhysics2 g g' =
     (time2 g = time2 g' \<and> planet g = planet g' \<and> spacecraft g = spacecraft g')"

subsection \<open>The force in \<^verbatim>\<open>float64\<close> arithmetic\<close>

text \<open>Rounding to the nearest integer, a tie to the even one.\<close>

definition roundHalfEven :: "real \<Rightarrow> int" where
  "roundHalfEven x =
     (let f = \<lfloor>x\<rfloor>; r = x - of_int f
      in if r < 1 / 2 then f else if 1 / 2 < r then f + 1 else if even f then f else f + 1)"

text \<open>
  The value of a real number as a \<^verbatim>\<open>float64\<close>: rounding to the nearest number with a
  significand of 53 bits, a tie to the even significand. Overflow, subnormal numbers and
  the non-finite values are not modelled; the numbers used below are far from them.
  Every operation is rounded on its own: no multiplication is fused with an addition.
  A division by zero, which gives \<^verbatim>\<open>NaN\<close> or an infinity in Go, is HOL's \<open>x / 0 = 0\<close>
  in the functions below: they are the Go functions where every divisor is not zero and
  every result is in the range of the normal numbers, as at the inputs evaluated below.
\<close>

definition round64 :: "real \<Rightarrow> real" where
  "round64 x =
     (if x = 0 then 0
      else (let e = \<lfloor>log 2 \<bar>x\<bar>\<rfloor> - 52
            in sgn x * of_int (roundHalfEven (\<bar>x\<bar> / 2 powr e)) * 2 powr e))"

text \<open>The constant \<^verbatim>\<open>gravitation\<close> as the \<^verbatim>\<open>float64\<close> that the compiler makes of it.\<close>

definition gravitation64 :: real where
  "gravitation64 = round64 (66743 / 10 ^ 15)"

text \<open>
  \<^verbatim>\<open>Length\<close>, \<^verbatim>\<open>Normalize\<close> and \<^verbatim>\<open>calculateGravitationalForce\<close> once more, with the
  result of every operation rounded, in the order in which Go evaluates them.
\<close>

definition Length64 :: "Vector \<Rightarrow> real" where
  "Length64 v = round64 (sqrt (round64 (round64 (X v * X v) + round64 (Y v * Y v))))"

definition Normalize64 :: "Vector \<Rightarrow> Vector" where
  "Normalize64 v = (let len = Length64 v in \<lparr>X = round64 (X v / len), Y = round64 (Y v / len)\<rparr>)"

definition calculateGravitationalForce64 :: "SpaceObject \<Rightarrow> SpaceObject \<Rightarrow> Vector" where
  "calculateGravitationalForce64 so1 so2 =
     (let distanceVector = \<lparr>X = round64 (X (position so1) - X (position so2)),
                             Y = round64 (Y (position so1) - Y (position so2))\<rparr>;
          distance = Length64 distanceVector;
          gravForce = round64 (round64 (round64 (gravitation64 * mass so2) * mass so1)
                                 / round64 (distance * distance));
          forceDirection = Normalize64 distanceVector
      in \<lparr>X = round64 (- gravForce * X forceDirection),
          Y = round64 (- gravForce * Y forceDirection)\<rparr>)"

text \<open>
  \<^verbatim>\<open>UpdateVelocity\<close> and the two velocity loops of \<^verbatim>\<open>Update\<close> once more, with the
  result of every operation rounded.
\<close>

definition UpdateVelocity64 :: "SpaceObject \<Rightarrow> Vector \<Rightarrow> SpaceObject" where
  "UpdateVelocity64 so force =
     so\<lparr>velocity := \<lparr>X = round64 (X (velocity so) + round64 (round64 (X force / mass so) * dt)),
                       Y = round64 (Y (velocity so) + round64 (round64 (Y force / mass so) * dt))\<rparr>\<rparr>"

definition pairStep64 :: "nat \<Rightarrow> SpaceObject list \<Rightarrow> nat \<Rightarrow> SpaceObject list" where
  "pairStep64 i objs j =
     (if j = i then objs
      else (let force = calculateGravitationalForce64 (objs ! i) (objs ! j)
            in objs[i := UpdateVelocity64 (objs ! i) force]))"

definition innerLoop64 :: "SpaceObject list \<Rightarrow> nat \<Rightarrow> SpaceObject list" where
  "innerLoop64 objs i = foldl (pairStep64 i) objs [0..<length objs]"

definition velocityLoop64 :: "SpaceObject list \<Rightarrow> SpaceObject list" where
  "velocityLoop64 objs = foldl innerLoop64 objs [0..<length objs]"

text \<open>
  The notions of the specification in \<^verbatim>\<open>float64\<close> arithmetic: the forces on a body, their
  sum accumulated from the zero vector, and the velocities of the two-phase step, which
  applies each net force to its body.
\<close>

definition forcesOn64 :: "SpaceObject list \<Rightarrow> nat \<Rightarrow> Vector list" where
  "forcesOn64 objs i =
     map (\<lambda>j. calculateGravitationalForce64 (objs ! i) (objs ! j))
       (filter (\<lambda>j. j \<noteq> i) [0..<length objs])"

definition vadd64 :: "Vector \<Rightarrow> Vector \<Rightarrow> Vector" where
  "vadd64 a b = \<lparr>X = round64 (X a + X b), Y = round64 (Y a + Y b)\<rparr>"

definition NetForceOn64 :: "SpaceObject list \<Rightarrow> nat \<Rightarrow> Vector" where
  "NetForceOn64 objs i = foldl vadd64 vzero (forcesOn64 objs i)"

definition twoPhaseVelocities64 :: "SpaceObject list \<Rightarrow> SpaceObject list" where
  "twoPhaseVelocities64 objs =
     map2 UpdateVelocity64 objs (map (NetForceOn64 objs) [0..<length objs])"

subsection \<open>The velocity loops with the non-finite values\<close>

text \<open>
  A \<^verbatim>\<open>float64\<close> that may be non-finite: \<open>None\<close> stands for \<^verbatim>\<open>NaN\<close> and for both
  infinities, \<open>Some x\<close> for the finite number \<open>x\<close>. The arithmetic on finite numbers is
  exact. The result of a division by zero is not finite, and neither is the result of
  an operation with a non-finite operand, with one exception: a finite number divided
  by an infinity is 0. The code divides by a distance or by a mass only, which are
  finite here, so the divisor of \<open>fdiv\<close> is a finite number.
\<close>

type_synonym floatF = "real option"

definition fdiv :: "floatF \<Rightarrow> real \<Rightarrow> floatF" where
  "fdiv x y = (case x of None \<Rightarrow> None | Some a \<Rightarrow> if y = 0 then None else Some (a / y))"

definition fmul :: "floatF \<Rightarrow> floatF \<Rightarrow> floatF" where
  "fmul x y = (case (x, y) of (Some a, Some b) \<Rightarrow> Some (a * b) | _ \<Rightarrow> None)"

definition fadd :: "floatF \<Rightarrow> floatF \<Rightarrow> floatF" where
  "fadd x y = (case (x, y) of (Some a, Some b) \<Rightarrow> Some (a + b) | _ \<Rightarrow> None)"

definition fneg :: "floatF \<Rightarrow> floatF" where
  "fneg x = map_option uminus x"

text \<open>
  A vector that may hold non-finite numbers, and a space object whose velocity may:
  the masses and the positions are finite, the velocity loops only read them.
\<close>

record VectorF =
  XF :: floatF
  YF :: floatF

record SpaceObjectF =
  nameF :: string
  massF :: real
  positionF :: Vector
  scaledPositionF :: Vector
  velocityF :: VectorF

text \<open>
  \<^verbatim>\<open>Normalize\<close>, \<^verbatim>\<open>calculateGravitationalForce\<close>, \<^verbatim>\<open>UpdateVelocity\<close> and the two
  velocity loops of \<^verbatim>\<open>Update\<close> once more, with the non-finite values.
\<close>

definition NormalizeF :: "Vector \<Rightarrow> VectorF" where
  "NormalizeF v = (let len = Length v in \<lparr>XF = fdiv (Some (X v)) len, YF = fdiv (Some (Y v)) len\<rparr>)"

definition calculateGravitationalForceF :: "SpaceObjectF \<Rightarrow> SpaceObjectF \<Rightarrow> VectorF" where
  "calculateGravitationalForceF so1 so2 =
     (let distanceVector = \<lparr>X = X (positionF so1) - X (positionF so2),
                             Y = Y (positionF so1) - Y (positionF so2)\<rparr>;
          distance = Length distanceVector;
          gravForce = fdiv (Some (gravitation * massF so2 * massF so1)) (distance * distance);
          forceDirection = NormalizeF distanceVector
      in \<lparr>XF = fmul (fneg gravForce) (XF forceDirection),
          YF = fmul (fneg gravForce) (YF forceDirection)\<rparr>)"

definition UpdateVelocityF :: "SpaceObjectF \<Rightarrow> VectorF \<Rightarrow> SpaceObjectF" where
  "UpdateVelocityF so force =
     so\<lparr>velocityF :=
          \<lparr>XF = fadd (XF (velocityF so)) (fmul (fdiv (XF force) (massF so)) (Some dt)),
           YF = fadd (YF (velocityF so)) (fmul (fdiv (YF force) (massF so)) (Some dt))\<rparr>\<rparr>"

definition pairStepF :: "nat \<Rightarrow> SpaceObjectF list \<Rightarrow> nat \<Rightarrow> SpaceObjectF list" where
  "pairStepF i objs j =
     (if j = i then objs
      else (let force = calculateGravitationalForceF (objs ! i) (objs ! j)
            in objs[i := UpdateVelocityF (objs ! i) force]))"

definition innerLoopF :: "SpaceObjectF list \<Rightarrow> nat \<Rightarrow> SpaceObjectF list" where
  "innerLoopF objs i = foldl (pairStepF i) objs [0..<length objs]"

definition velocityLoopF :: "SpaceObjectF list \<Rightarrow> SpaceObjectF list" where
  "velocityLoopF objs = foldl innerLoopF objs [0..<length objs]"

text \<open>The forces on body \<open>i\<close>, one for every other index.\<close>

definition forcesOnF :: "SpaceObjectF list \<Rightarrow> nat \<Rightarrow> VectorF list" where
  "forcesOnF objs i =
     map (\<lambda>j. calculateGravitationalForceF (objs ! i) (objs ! j))
       (filter (\<lambda>j. j \<noteq> i) [0..<length objs])"

text \<open>A vector and a space object of the real-valued embedding, as finite values here.\<close>

definition finiteV :: "Vector \<Rightarrow> VectorF" where
  "finiteV v = \<lparr>XF = Some (X v), YF = Some (Y v)\<rparr>"

definition asSpaceObjectF :: "SpaceObject \<Rightarrow> SpaceObjectF" where
  "asSpaceObjectF so =
     \<lparr>nameF = name so, massF = mass so, positionF = position so,
      scaledPositionF = scaledPosition so, velocityF = finiteV (velocity so)\<rparr>"

text \<open>The vector of two non-finite numbers.\<close>

definition notANumber :: VectorF where
  "notANumber = \<lparr>XF = None, YF = None\<rparr>"

text \<open>The game after \<open>n\<close> updates.\<close>

fun run :: "nat \<Rightarrow> Game \<Rightarrow> Game" where
  "run 0 g = g"
| "run (Suc n) g = run n (snd (Update g))"

subsection \<open>Example worlds\<close>

definition bodyA :: SpaceObject where
  "bodyA = \<lparr>name = ''A'', mass = 10 ^ 15, position = \<lparr>X = 3, Y = 4\<rparr>,
             scaledPosition = \<lparr>X = 0, Y = 0\<rparr>, velocity = \<lparr>X = 0, Y = 0\<rparr>\<rparr>"

definition bodyB :: SpaceObject where
  "bodyB = \<lparr>name = ''B'', mass = 25, position = \<lparr>X = 0, Y = 0\<rparr>,
             scaledPosition = \<lparr>X = 0, Y = 0\<rparr>, velocity = \<lparr>X = 0, Y = 0\<rparr>\<rparr>"

definition world :: Game where
  "world = \<lparr>screenWidth = 1080, screenHeight = 720, spaceObjects = [bodyA, bodyB], time = 0\<rparr>"

text \<open>The same bodies under other names, in a window of another size.\<close>

definition worldRenamed :: Game where
  "worldRenamed =
     \<lparr>screenWidth = 640, screenHeight = 480,
      spaceObjects = [bodyA\<lparr>name := ''Earth''\<rparr>,
                      bodyB\<lparr>name := ''Moon'', scaledPosition := \<lparr>X = 7, Y = 7\<rparr>\<rparr>],
      time = 0\<rparr>"

text \<open>Two bodies at distance 1, of masses 3 and 7.\<close>

definition bodyP :: SpaceObject where
  "bodyP = \<lparr>name = ''P'', mass = 3, position = \<lparr>X = 1, Y = 0\<rparr>,
             scaledPosition = \<lparr>X = 0, Y = 0\<rparr>, velocity = \<lparr>X = 0, Y = 0\<rparr>\<rparr>"

definition bodyQ :: SpaceObject where
  "bodyQ = \<lparr>name = ''Q'', mass = 7, position = \<lparr>X = 0, Y = 0\<rparr>,
             scaledPosition = \<lparr>X = 0, Y = 0\<rparr>, velocity = \<lparr>X = 0, Y = 0\<rparr>\<rparr>"

text \<open>Three bodies on a line, of masses 1, 6 and 3.\<close>

definition bodyU :: SpaceObject where
  "bodyU = \<lparr>name = ''U'', mass = 1, position = \<lparr>X = 0, Y = 0\<rparr>,
             scaledPosition = \<lparr>X = 0, Y = 0\<rparr>, velocity = \<lparr>X = 0, Y = 0\<rparr>\<rparr>"

definition bodyV :: SpaceObject where
  "bodyV = \<lparr>name = ''V'', mass = 6, position = \<lparr>X = 1, Y = 0\<rparr>,
             scaledPosition = \<lparr>X = 0, Y = 0\<rparr>, velocity = \<lparr>X = 0, Y = 0\<rparr>\<rparr>"

definition bodyW :: SpaceObject where
  "bodyW = \<lparr>name = ''W'', mass = 3, position = \<lparr>X = 2, Y = 0\<rparr>,
             scaledPosition = \<lparr>X = 0, Y = 0\<rparr>, velocity = \<lparr>X = 0, Y = 0\<rparr>\<rparr>"

text \<open>Two bodies at the same position.\<close>

definition twinA :: SpaceObjectF where
  "twinA = \<lparr>nameF = ''A'', massF = 10 ^ 15, positionF = \<lparr>X = 3, Y = 4\<rparr>,
             scaledPositionF = \<lparr>X = 0, Y = 0\<rparr>, velocityF = \<lparr>XF = Some 0, YF = Some 0\<rparr>\<rparr>"

definition twinB :: SpaceObjectF where
  "twinB = \<lparr>nameF = ''B'', massF = 25, positionF = \<lparr>X = 3, Y = 4\<rparr>,
             scaledPositionF = \<lparr>X = 0, Y = 0\<rparr>, velocityF = \<lparr>XF = Some 1, YF = Some 2\<rparr>\<rparr>"

text \<open>
  A world of the two-body program: the planet drifts from the origin to \<open>(3, 0)\<close> in
  one update, the spacecraft starts at rest at \<open>(3, 4)\<close>.
\<close>

definition game2 :: Game2 where
  "game2 =
     \<lparr>screenWidth2 = 1080, screenHeight2 = 720,
      planet = \<lparr>mass2 = 10 ^ 15, position2 = \<lparr>X = 0, Y = 0\<rparr>,
                 velocity2 = \<lparr>X = 1 / 480, Y = 0\<rparr>\<rparr>,
      spacecraft = \<lparr>mass2 = 1, position2 = \<lparr>X = 3, Y = 4\<rparr>,
                     velocity2 = \<lparr>X = 0, Y = 0\<rparr>\<rparr>,
      time2 = 0\<rparr>"

section \<open>Properties\<close>

lemma dt_value: "dt = 43200"
  by (simp add: dt_def)

lemma dt2_value: "dt2 = 1440"
  by (simp add: dt2_def)

subsection \<open>The velocity loop reads the bodies as they were before the update\<close>

lemma UpdateVelocity_fields [simp]:
  "position (UpdateVelocity so f) = position so"
  "mass (UpdateVelocity so f) = mass so"
  "name (UpdateVelocity so f) = name so"
  "scaledPosition (UpdateVelocity so f) = scaledPosition so"
  by (simp_all add: UpdateVelocity_def)

lemma force_reads_position_mass:
  "position a = position a' \<Longrightarrow> mass a = mass a' \<Longrightarrow> position b = position b' \<Longrightarrow> mass b = mass b'
   \<Longrightarrow> calculateGravitationalForce a b = calculateGravitationalForce a' b'"
  by (simp add: calculateGravitationalForce_def)

lemma foldl_UpdateVelocity_fields [simp]:
  "position (foldl UpdateVelocity so fs) = position so"
  "mass (foldl UpdateVelocity so fs) = mass so"
  "name (foldl UpdateVelocity so fs) = name so"
  "scaledPosition (foldl UpdateVelocity so fs) = scaledPosition so"
  by (induction fs arbitrary: so) simp_all

lemma pairStep_self: "pairStep i objs i = objs"
  by (simp add: pairStep_def)

lemma pairStep_other:
  "j \<noteq> i \<Longrightarrow> pairStep i objs j =
     objs[i := UpdateVelocity (objs ! i) (calculateGravitationalForce (objs ! i) (objs ! j))]"
  by (simp add: pairStep_def)

lemma foldl_pairStep:
  "i < length objs \<Longrightarrow>
   foldl (pairStep i) objs js =
     objs[i := foldl UpdateVelocity (objs ! i)
                 (map (\<lambda>j. calculateGravitationalForce (objs ! i) (objs ! j))
                    (filter (\<lambda>j. j \<noteq> i) js))]"
proof (induction js rule: rev_induct)
  case Nil
  then show ?case by simp
next
  case (snoc j js)
  let ?A = "foldl UpdateVelocity (objs ! i)
                 (map (\<lambda>j. calculateGravitationalForce (objs ! i) (objs ! j))
                    (filter (\<lambda>j. j \<noteq> i) js))"
  have fold: "foldl (pairStep i) objs js = objs[i := ?A]"
    using snoc by simp
  show ?case
  proof (cases "j = i")
    case True
    then show ?thesis using fold by (simp add: pairStep_self)
  next
    case False
    have "calculateGravitationalForce ?A (objs ! j) = calculateGravitationalForce (objs ! i) (objs ! j)"
      by (rule force_reads_position_mass) simp_all
    then show ?thesis
      using False fold snoc.prems by (simp add: pairStep_other)
  qed
qed

lemma innerLoop_eq:
  "i < length objs \<Longrightarrow> innerLoop objs i = objs[i := foldl UpdateVelocity (objs ! i) (forcesOn objs i)]"
  by (simp add: innerLoop_def forcesOn_def foldl_pairStep)


lemma forcesOn_cong:
  assumes "length objs' = length objs"
    and "\<And>j. j < length objs \<Longrightarrow> position (objs' ! j) = position (objs ! j) \<and> mass (objs' ! j) = mass (objs ! j)"
    and "i < length objs"
  shows "forcesOn objs' i = forcesOn objs i"
  unfolding forcesOn_def using assms
  by (auto intro!: force_reads_position_mass)

lemma velocityLoop_prefix:
  "k \<le> length objs \<Longrightarrow>
   length (foldl innerLoop objs [0..<k]) = length objs \<and>
   (\<forall>i<length objs. foldl innerLoop objs [0..<k] ! i =
        (if i < k then foldl UpdateVelocity (objs ! i) (forcesOn objs i) else objs ! i))"
proof (induction k)
  case 0
  then show ?case by simp
next
  case (Suc k)
  let ?R = "foldl innerLoop objs [0..<k]"
  from Suc have len: "length ?R = length objs"
    and old: "\<And>i. i < length objs \<Longrightarrow>
                ?R ! i = (if i < k then foldl UpdateVelocity (objs ! i) (forcesOn objs i) else objs ! i)"
    and k: "k < length objs"
    by simp_all
  have same: "\<And>j. j < length objs \<Longrightarrow>
      position (?R ! j) = position (objs ! j) \<and> mass (?R ! j) = mass (objs ! j)"
    by (simp add: old)
  have forces: "forcesOn ?R k = forcesOn objs k"
    using len same k by (rule forcesOn_cong)
  have step: "foldl innerLoop objs [0..<Suc k] =
                ?R[k := foldl UpdateVelocity (objs ! k) (forcesOn objs k)]"
    using k len forces old [OF k] by (simp add: innerLoop_eq)
  show ?case
    unfolding step using len k old by (auto simp: nth_list_update)
qed

lemma length_velocityLoop: "length (velocityLoop objs) = length objs"
  using velocityLoop_prefix [of "length objs" objs] by (simp add: velocityLoop_def)

lemma velocityLoop_nth:
  "i < length objs \<Longrightarrow> velocityLoop objs ! i = foldl UpdateVelocity (objs ! i) (forcesOn objs i)"
  using velocityLoop_prefix [of "length objs" objs] by (simp add: velocityLoop_def)

subsection \<open>The integrator and the force law\<close>

lemma UpdateVelocity_vzero: "UpdateVelocity so vzero = so"
  by (simp add: UpdateVelocity_def vzero_def)

lemma UpdateVelocity_twice:
  "UpdateVelocity (UpdateVelocity so a) b = UpdateVelocity so (vadd a b)"
  by (simp add: UpdateVelocity_def vadd_def add_divide_distrib algebra_simps)

lemma foldl_UpdateVelocity_net:
  "foldl UpdateVelocity so fs = UpdateVelocity so (foldl vadd vzero fs)"
  by (induction fs rule: rev_induct) (simp_all add: UpdateVelocity_vzero UpdateVelocity_twice)

lemma Length_pos: "X d \<noteq> 0 \<or> Y d \<noteq> 0 \<Longrightarrow> 0 < Length d"
  unfolding Length_def by (auto simp: sum_squares_gt_zero_iff [simplified power2_eq_square] )






lemma distinct_positions:
  "(p::Vector) \<noteq> q \<Longrightarrow> X p - X q \<noteq> 0 \<or> Y p - Y q \<noteq> 0"
  by (cases p, cases q) auto


subsection \<open>The update, body by body\<close>

lemma map_position_pairStep: "map position (pairStep i objs j) = map position objs"
proof (cases "j = i")
  case True
  then show ?thesis by (simp add: pairStep_self)
next
  case False
  show ?thesis
  proof (cases "i < length objs")
    case True
    then show ?thesis using False
      by (simp add: pairStep_other map_update list_update_same_conv)
  next
    case False
    then show ?thesis using \<open>j \<noteq> i\<close> by (simp add: pairStep_other list_update_beyond)
  qed
qed

lemma map_position_foldl_pairStep:
  "map position (foldl (pairStep i) objs js) = map position objs"
  by (induction js rule: rev_induct) (simp_all add: map_position_pairStep)

lemma map_position_innerLoop: "map position (innerLoop objs i) = map position objs"
  by (simp add: innerLoop_def map_position_foldl_pairStep)

lemma map_position_foldl_innerLoop:
  "map position (foldl innerLoop objs ks) = map position objs"
  by (induction ks rule: rev_induct) (simp_all add: map_position_innerLoop)

lemma Update_nth:
  "i < length (spaceObjects g) \<Longrightarrow>
   spaceObjects (snd (Update g)) ! i =
     positionStep (screenWidth g) (screenHeight g)
       (foldl UpdateVelocity (spaceObjects g ! i) (forcesOn (spaceObjects g) i))"
  by (simp add: Update_def positionLoop_def length_velocityLoop velocityLoop_nth)

lemma length_Update: "length (spaceObjects (snd (Update g))) = length (spaceObjects g)"
  by (simp add: Update_def positionLoop_def length_velocityLoop)

lemma forcesOn_single: "forcesOn [so] 0 = []"
  by (simp add: forcesOn_def)

lemma velocityLoop_single: "velocityLoop [so] = [so]"
  by (simp add: velocityLoop_def innerLoop_def pairStep_self)

lemma velocityLoop_two_phase:
  "velocityLoop objs = map2 UpdateVelocity objs (map (NetForceOn objs) [0..<length objs])"
  by (rule nth_equalityI)
     (simp_all add: length_velocityLoop velocityLoop_nth foldl_UpdateVelocity_net NetForceOn_def)

subsection \<open>The example worlds, evaluated\<close>

lemma sqrt_25: "sqrt 25 = 5"
  using real_sqrt_abs [of 5] by simp

lemma sqrt_16: "sqrt 16 = 4"
  using real_sqrt_abs [of 4] by simp

lemma force_A_B:
  "calculateGravitationalForce bodyA bodyB = \<lparr>X = - (200229 / 5), Y = - (266972 / 5)\<rparr>"
  by (simp add: calculateGravitationalForce_def Let_def bodyA_def bodyB_def Length_def
      Normalize_def gravitation_def sqrt_25)

lemma force_B_A:
  "calculateGravitationalForce bodyB bodyA = \<lparr>X = 200229 / 5, Y = 266972 / 5\<rparr>"
  by (simp add: calculateGravitationalForce_def Let_def bodyA_def bodyB_def Length_def
      Normalize_def gravitation_def sqrt_25)

lemma forcesOn_pair:
  "forcesOn [a, b] 0 = [calculateGravitationalForce a b]"
  "forcesOn [a, b] (Suc 0) = [calculateGravitationalForce b a]"
  by (simp_all add: forcesOn_def upt_rec [of 0] upt_rec [of 1] upt_rec [of "Suc 0"])

lemma velocityLoop_pair:
  "velocityLoop [a, b] =
     [UpdateVelocity a (calculateGravitationalForce a b),
      UpdateVelocity b (calculateGravitationalForce b a)]"
proof (rule nth_equalityI)
  show "length (velocityLoop [a, b]) = length [UpdateVelocity a (calculateGravitationalForce a b),
      UpdateVelocity b (calculateGravitationalForce b a)]"
    by (simp add: length_velocityLoop)
next
  fix i assume "i < length (velocityLoop [a, b])"
  then have "i = 0 \<or> i = Suc 0" by (auto simp: length_velocityLoop)
  then show "velocityLoop [a, b] ! i = [UpdateVelocity a (calculateGravitationalForce a b),
      UpdateVelocity b (calculateGravitationalForce b a)] ! i"
    by (auto simp: velocityLoop_nth forcesOn_pair)
qed

lemma force2_game2_post:
  "force2 \<lparr>X = 3, Y = 0\<rparr> game2 = \<lparr>X = 0, Y = - (66743 / 16)\<rparr>"
  by (simp add: force2_def Let_def game2_def Length_def Normalize_def gravitation_def sqrt_16)

lemma force2_game2_pre:
  "force2 \<lparr>X = 0, Y = 0\<rparr> game2 = \<lparr>X = - (200229 / 125), Y = - (266972 / 125)\<rparr>"
  by (simp add: force2_def Let_def game2_def Length_def Normalize_def gravitation_def sqrt_25)

lemma Update2_game2:
  "snd (Update2 game2) =
     \<lparr>screenWidth2 = 1080, screenHeight2 = 720,
      planet = \<lparr>mass2 = 10 ^ 15, position2 = \<lparr>X = 3, Y = 0\<rparr>,
                 velocity2 = \<lparr>X = 1 / 480, Y = 0\<rparr>\<rparr>,
      spacecraft = \<lparr>mass2 = 1, position2 = \<lparr>X = 3, Y = 4 - 6006870 * 1440\<rparr>,
                     velocity2 = \<lparr>X = 0, Y = - 6006870\<rparr>\<rparr>,
      time2 = 1440\<rparr>"
proof -
  have p: "\<lparr>X = X (position2 (planet game2)) + X (velocity2 (planet game2)) * dt2,
            Y = Y (position2 (planet game2)) + Y (velocity2 (planet game2)) * dt2\<rparr> = \<lparr>X = 3, Y = 0\<rparr>"
    by (simp add: game2_def dt2_value)
  show ?thesis
    unfolding Update2_def Let_def p force2_game2_post
    by (simp add: game2_def dt2_value)
qed

subsection \<open>Determinism, antisymmetry and momentum\<close>

lemma physics_eq_iff:
  "physics a = physics b \<longleftrightarrow> mass a = mass b \<and> position a = position b \<and> velocity a = velocity b"
  by (simp add: physics_def)

lemma physics_body_step:
  "physics a = physics b \<Longrightarrow>
   physics (positionStep w h (foldl UpdateVelocity a fs))
     = physics (positionStep w' h' (foldl UpdateVelocity b fs))"
  by (simp add: physics_eq_iff foldl_UpdateVelocity_net positionStep_def Let_def
      UpdatePosition_def UpdateVelocity_def)

lemma samePhysics_Update:
  assumes "samePhysics g g'"
  shows "samePhysics (snd (Update g)) (snd (Update g'))"
proof -
  from assms have t: "time g = time g'"
    and m: "map physics (spaceObjects g) = map physics (spaceObjects g')"
    by (simp_all add: samePhysics_def)
  from m have len: "length (spaceObjects g') = length (spaceObjects g)"
    using map_eq_imp_length_eq by fastforce
  have ph: "\<And>j. j < length (spaceObjects g) \<Longrightarrow>
              physics (spaceObjects g' ! j) = physics (spaceObjects g ! j)"
    using m len by (metis nth_map)
  have forces: "\<And>i. i < length (spaceObjects g) \<Longrightarrow>
              forcesOn (spaceObjects g') i = forcesOn (spaceObjects g) i"
    using len ph by (intro forcesOn_cong) (simp_all add: physics_eq_iff)
  have "map physics (spaceObjects (snd (Update g))) = map physics (spaceObjects (snd (Update g')))"
  proof (rule nth_equalityI)
    show "length (map physics (spaceObjects (snd (Update g))))
            = length (map physics (spaceObjects (snd (Update g'))))"
      by (simp add: length_Update len)
  next
    fix i assume "i < length (map physics (spaceObjects (snd (Update g))))"
    then have i: "i < length (spaceObjects g)" by (simp add: length_Update)
    then have i': "i < length (spaceObjects g')" by (simp add: len)
    show "map physics (spaceObjects (snd (Update g))) ! i
            = map physics (spaceObjects (snd (Update g'))) ! i"
      using i i' forces [OF i] ph [OF i]
      by (simp add: length_Update Update_nth physics_body_step [of "spaceObjects g ! i" "spaceObjects g' ! i"])
  qed
  then show ?thesis using t by (simp add: samePhysics_def Update_def)
qed

lemma samePhysics_run:
  "samePhysics g g' \<Longrightarrow> samePhysics (run n g) (run n g')"
  by (induction n arbitrary: g g') (simp_all add: samePhysics_Update)

lemma samePhysics2_Update2:
  "samePhysics2 h h' \<Longrightarrow> samePhysics2 (snd (Update2 h)) (snd (Update2 h'))"
  by (simp add: samePhysics2_def Update2_def Let_def force2_def)

lemma force_antisymmetric:
  "calculateGravitationalForce b a =
     \<lparr>X = - X (calculateGravitationalForce a b), Y = - Y (calculateGravitationalForce a b)\<rparr>"
proof -
  define dX where "dX = X (position a) - X (position b)"
  define dY where "dY = Y (position a) - Y (position b)"
  define L where "L = Length \<lparr>X = dX, Y = dY\<rparr>"
  define c where "c = gravitation * mass b * mass a / (L * L)"
  have ba: "X (position b) - X (position a) = - dX" "Y (position b) - Y (position a) = - dY"
    by (simp_all add: dX_def dY_def)
  have L': "Length \<lparr>X = - dX, Y = - dY\<rparr> = L"
    by (simp add: L_def Length_def)
  have c': "gravitation * mass a * mass b / (L * L) = c"
    by (simp add: c_def mult.commute mult.left_commute)
  have "calculateGravitationalForce b a = \<lparr>X = - c * (- dX / L), Y = - c * (- dY / L)\<rparr>"
    unfolding calculateGravitationalForce_def Let_def Normalize_def ba
    by (simp only: Vector.simps L' c')
  moreover have "calculateGravitationalForce a b = \<lparr>X = - c * (dX / L), Y = - c * (dY / L)\<rparr>"
    unfolding calculateGravitationalForce_def Let_def Normalize_def
    by (simp only: Vector.simps dX_def [symmetric] dY_def [symmetric] L_def [symmetric] c_def [symmetric])
  ultimately show ?thesis by simp
qed

lemma momentum_pair_step:
  assumes "mass a \<noteq> 0" "mass b \<noteq> 0"
  shows "momentum [UpdateVelocity a (calculateGravitationalForce a b),
                   UpdateVelocity b (calculateGravitationalForce b a)] = momentum [a, b]"
  unfolding force_antisymmetric [of a b]
  using assms by (simp add: momentum_def UpdateVelocity_def algebra_simps)

lemma momentum_positionLoop: "momentum (positionLoop w h objs) = momentum objs"
  by (simp add: momentum_def positionLoop_def positionStep_def UpdatePosition_def Let_def comp_def)

lemma momentum_Update_pair:
  assumes "length (spaceObjects g) = 2" "normal (spaceObjects g)"
  shows "momentum (spaceObjects (snd (Update g))) = momentum (spaceObjects g)"
proof -
  from assms(1) obtain a b where ab: "spaceObjects g = [a, b]"
    by (auto simp: length_Suc_conv numeral_2_eq_2)
  with assms(2) have "mass a \<noteq> 0" "mass b \<noteq> 0"
    by (auto simp: normal_def)
  then show ?thesis
    by (simp add: Update_def ab velocityLoop_pair momentum_positionLoop momentum_pair_step)
qed

lemma Update_world:
  "spaceObjects (snd (Update world)) =
     [positionStep 1080 720 (UpdateVelocity bodyA \<lparr>X = - (200229 / 5), Y = - (266972 / 5)\<rparr>),
      positionStep 1080 720 (UpdateVelocity bodyB \<lparr>X = 200229 / 5, Y = 266972 / 5\<rparr>)]"
  by (simp add: Update_def world_def velocityLoop_pair force_A_B force_B_A positionLoop_def)

lemma normal_world: "normal (spaceObjects world)"
  by (simp add: normal_def world_def bodyA_def bodyB_def)

lemma normal_Update_world: "normal (spaceObjects (snd (Update world)))"
  unfolding Update_world
  by (simp add: normal_def positionStep_def UpdatePosition_def UpdateVelocity_def Let_def
      bodyA_def bodyB_def dt_value)

subsection \<open>Rounding\<close>

lemma floor_log2:
  fixes x :: real
  assumes "2 ^ 52 \<le> x * 2 ^ k" "x * 2 ^ k < 2 ^ 53"
  shows "\<lfloor>log 2 x\<rfloor> = 52 - int k"
proof -
  have pos: "0 < x"
  proof (rule ccontr)
    assume "\<not> 0 < x"
    then have "x * 2 ^ k \<le> 0" by (simp add: mult_nonpos_nonneg)
    moreover have "(0::real) < 2 ^ 52" by simp
    ultimately show False using assms(1) by linarith
  qed
  have "log 2 (x * 2 ^ k) = log 2 x + real k"
    using pos by (simp add: log_mult log_nat_power)
  moreover have "52 \<le> log 2 (x * 2 ^ k)"
    using assms(1) pos le_log_iff [of 2 "x * 2 ^ k" 52] by (simp add: powr_realpow [symmetric] del: powr_numeral) 
  moreover have "log 2 (x * 2 ^ k) < 53"
    using assms(2) pos log_less_iff [of 2 "x * 2 ^ k" 53] by (simp add: powr_realpow [symmetric] del: powr_numeral)
  ultimately have "52 - real k \<le> log 2 x" "log 2 x < 53 - real k"
    by linarith+
  then show ?thesis
    by (intro floor_unique) simp_all
qed


lemma round64_scaled:
  assumes "2 ^ 52 \<le> \<bar>x\<bar> * 2 ^ k" "\<bar>x\<bar> * 2 ^ k < 2 ^ 53"
  shows "round64 x = sgn x * of_int (roundHalfEven (\<bar>x\<bar> * 2 ^ k)) / 2 ^ k"
proof -
  have nz: "x \<noteq> 0" using assms(1) by auto
  have e: "\<lfloor>log 2 \<bar>x\<bar>\<rfloor> - 52 = - int k"
    using floor_log2 [OF assms] by simp
  have p: "2 powr (of_int (- int k)) = 1 / (2::real) ^ k"
    by (simp add: powr_minus powr_realpow divide_inverse)
  show ?thesis
    unfolding round64_def Let_def e p using nz by simp
qed

lemma round64_0: "round64 0 = 0"
  by (simp add: round64_def)

lemma roundHalfEven_int: "roundHalfEven (of_int n) = n"
  by (simp add: roundHalfEven_def)

lemma round64_1: "round64 1 = 1"
  using round64_scaled [of 1 52] roundHalfEven_int [of "2 ^ 52"] by simp

lemma round64_m1: "round64 (- 1) = - 1"
  using round64_scaled [of "- 1" 52] roundHalfEven_int [of "2 ^ 52"] by simp

lemma gravitation64_value: "gravitation64 = 5163989502626508 / 2 ^ 86"
  unfolding gravitation64_def
  by (subst round64_scaled [of _ 86]) (simp_all add: roundHalfEven_def Let_def)

lemma G7: "round64 (gravitation64 * 7) = 4518490814798194 / 2 ^ 83"
  unfolding gravitation64_value
  by (subst round64_scaled [of _ 83]) (simp_all add: roundHalfEven_def Let_def)

lemma G73: "round64 (round64 (gravitation64 * 7) * 3) = 6777736222197291 / 2 ^ 82"
  unfolding G7
  by (subst round64_scaled [of _ 82]) (simp_all add: roundHalfEven_def Let_def)

lemma G3: "round64 (gravitation64 * 3) = 7745984253939762 / 2 ^ 85"
  unfolding gravitation64_value
  by (subst round64_scaled [of _ 85]) (simp_all add: roundHalfEven_def Let_def)

lemma G37: "round64 (round64 (gravitation64 * 3) * 7) = 6777736222197292 / 2 ^ 82"
  unfolding G3
  by (subst round64_scaled [of _ 82]) (simp_all add: roundHalfEven_def Let_def)


lemma Length64_unit: "Length64 \<lparr>X = 1, Y = 0\<rparr> = 1" "Length64 \<lparr>X = - 1, Y = 0\<rparr> = 1"
  by (simp_all add: Length64_def round64_0 round64_1)

lemma round64_a: "round64 (- (6777736222197291 / 2 ^ 82)) = - (6777736222197291 / 2 ^ 82)"
  by (subst round64_scaled [of _ 82]) (simp_all add: roundHalfEven_def Let_def)

lemma round64_a': "round64 (6777736222197291 / 2 ^ 82) = 6777736222197291 / 2 ^ 82"
  by (subst round64_scaled [of _ 82]) (simp_all add: roundHalfEven_def Let_def)

lemma round64_b: "round64 (6777736222197292 / 2 ^ 82) = 6777736222197292 / 2 ^ 82"
  by (subst round64_scaled [of _ 82]) (simp_all add: roundHalfEven_def Let_def)

lemma round64_minus: "round64 (- x) = - round64 x"
  by (simp add: round64_def Let_def)

lemma force64_P_Q:
  "calculateGravitationalForce64 bodyP bodyQ = \<lparr>X = - (6777736222197291 / 2 ^ 82), Y = 0\<rparr>"
proof -
  define a :: real where "a = 6777736222197291 / 2 ^ 82"
  have g: "round64 (round64 (gravitation64 * 7) * 3) = a"
    unfolding a_def by (rule G73)
  have ra: "round64 a = a"
    unfolding a_def by (rule round64_a')
  have "calculateGravitationalForce64 bodyP bodyQ = \<lparr>X = - a, Y = 0\<rparr>"
    unfolding calculateGravitationalForce64_def Let_def Normalize64_def
    by (simp add: bodyP_def bodyQ_def round64_0 round64_1 Length64_unit g ra round64_minus)
  then show ?thesis unfolding a_def .
qed

lemma force64_Q_P:
  "calculateGravitationalForce64 bodyQ bodyP = \<lparr>X = 6777736222197292 / 2 ^ 82, Y = 0\<rparr>"
proof -
  define b :: real where "b = 6777736222197292 / 2 ^ 82"
  have g: "round64 (round64 (gravitation64 * 3) * 7) = b"
    unfolding b_def by (rule G37)
  have rb: "round64 b = b"
    unfolding b_def by (rule round64_b)
  have "calculateGravitationalForce64 bodyQ bodyP = \<lparr>X = b, Y = 0\<rparr>"
    unfolding calculateGravitationalForce64_def Let_def Normalize64_def
    by (simp add: bodyP_def bodyQ_def round64_0 round64_1 round64_m1 Length64_unit g rb round64_minus)
  then show ?thesis unfolding b_def .
qed

subsection \<open>The velocity loop in \<^verbatim>\<open>float64\<close> arithmetic\<close>

lemma round64_2: "round64 2 = 2"
  by (subst round64_scaled [of _ 51]) (simp_all add: roundHalfEven_def Let_def)

lemma round64_4: "round64 4 = 4"
  by (subst round64_scaled [of _ 50]) (simp_all add: roundHalfEven_def Let_def)

lemma sqrt_4: "sqrt 4 = 2"
  using real_sqrt_abs [of 2] by simp

lemma G6: "round64 (gravitation64 * 6) = 7745984253939762 / 2 ^ 84"
  unfolding gravitation64_value
  by (subst round64_scaled [of _ 84]) (simp_all add: roundHalfEven_def Let_def)

lemma R_f1: "round64 (7745984253939762 / 2 ^ 84) = 7745984253939762 / 2 ^ 84"
  by (subst round64_scaled [of _ 84]) (simp_all add: roundHalfEven_def Let_def)

lemma R_g3: "round64 (7745984253939762 / 2 ^ 85) = 7745984253939762 / 2 ^ 85"
  by (subst round64_scaled [of _ 85]) (simp_all add: roundHalfEven_def Let_def)

lemma R_g3_4: "round64 (7745984253939762 / 2 ^ 85 / 4) = 7745984253939762 / 2 ^ 87"
  by (subst round64_scaled [of _ 87]) (simp_all add: roundHalfEven_def Let_def)

lemma R_f2: "round64 (7745984253939762 / 2 ^ 87) = 7745984253939762 / 2 ^ 87"
  by (subst round64_scaled [of _ 87]) (simp_all add: roundHalfEven_def Let_def)

lemma R_a1: "round64 (7745984253939762 / 2 ^ 84 * 43200) = 5105995479891933 / 2 ^ 68"
  by (subst round64_scaled [of _ 68]) (simp_all add: roundHalfEven_def Let_def)

lemma R_a1': "round64 (5105995479891933 / 2 ^ 68) = 5105995479891933 / 2 ^ 68"
  by (subst round64_scaled [of _ 68]) (simp_all add: roundHalfEven_def Let_def)

lemma R_a2: "round64 (7745984253939762 / 2 ^ 87 * 43200) = 5105995479891933 / 2 ^ 71"
  by (subst round64_scaled [of _ 71]) (simp_all add: roundHalfEven_def Let_def)

lemma R_v2: "round64 (5105995479891933 / 2 ^ 68 + 5105995479891933 / 2 ^ 71) = 5744244914878425 / 2 ^ 68"
  by (subst round64_scaled [of _ 68]) (simp_all add: roundHalfEven_def Let_def)

lemma R_net: "round64 (7745984253939762 / 2 ^ 84 + 7745984253939762 / 2 ^ 87) = 8714232285682232 / 2 ^ 84"
  by (subst round64_scaled [of _ 84]) (simp_all add: roundHalfEven_def Let_def)

lemma R_net': "round64 (8714232285682232 / 2 ^ 84) = 8714232285682232 / 2 ^ 84"
  by (subst round64_scaled [of _ 84]) (simp_all add: roundHalfEven_def Let_def)

lemma R_an: "round64 (8714232285682232 / 2 ^ 84 * 43200) = 5744244914878424 / 2 ^ 68"
  by (subst round64_scaled [of _ 68]) (simp_all add: roundHalfEven_def Let_def)

lemma R_an': "round64 (5744244914878424 / 2 ^ 68) = 5744244914878424 / 2 ^ 68"
  by (subst round64_scaled [of _ 68]) (simp_all add: roundHalfEven_def Let_def)

lemma UpdateVelocity64_fields [simp]:
  "position (UpdateVelocity64 so f) = position so"
  "mass (UpdateVelocity64 so f) = mass so"
  "name (UpdateVelocity64 so f) = name so"
  "scaledPosition (UpdateVelocity64 so f) = scaledPosition so"
  by (simp_all add: UpdateVelocity64_def)

lemma force64_reads_position_mass:
  "position a = position a' \<Longrightarrow> mass a = mass a' \<Longrightarrow> position b = position b' \<Longrightarrow> mass b = mass b'
   \<Longrightarrow> calculateGravitationalForce64 a b = calculateGravitationalForce64 a' b'"
  by (simp add: calculateGravitationalForce64_def)

lemma foldl_UpdateVelocity64_fields [simp]:
  "position (foldl UpdateVelocity64 so fs) = position so"
  "mass (foldl UpdateVelocity64 so fs) = mass so"
  "name (foldl UpdateVelocity64 so fs) = name so"
  "scaledPosition (foldl UpdateVelocity64 so fs) = scaledPosition so"
  by (induction fs arbitrary: so) simp_all

lemma pairStep64_self: "pairStep64 i objs i = objs"
  by (simp add: pairStep64_def)

lemma pairStep64_other:
  "j \<noteq> i \<Longrightarrow> pairStep64 i objs j =
     objs[i := UpdateVelocity64 (objs ! i) (calculateGravitationalForce64 (objs ! i) (objs ! j))]"
  by (simp add: pairStep64_def)

lemma foldl_pairStep64:
  "i < length objs \<Longrightarrow>
   foldl (pairStep64 i) objs js =
     objs[i := foldl UpdateVelocity64 (objs ! i)
                 (map (\<lambda>j. calculateGravitationalForce64 (objs ! i) (objs ! j))
                    (filter (\<lambda>j. j \<noteq> i) js))]"
proof (induction js rule: rev_induct)
  case Nil
  then show ?case by simp
next
  case (snoc j js)
  let ?A = "foldl UpdateVelocity64 (objs ! i)
                 (map (\<lambda>j. calculateGravitationalForce64 (objs ! i) (objs ! j))
                    (filter (\<lambda>j. j \<noteq> i) js))"
  have fold: "foldl (pairStep64 i) objs js = objs[i := ?A]"
    using snoc by simp
  show ?case
  proof (cases "j = i")
    case True
    then show ?thesis using fold by (simp add: pairStep64_self)
  next
    case False
    have "calculateGravitationalForce64 ?A (objs ! j) = calculateGravitationalForce64 (objs ! i) (objs ! j)"
      by (rule force64_reads_position_mass) simp_all
    then show ?thesis
      using False fold snoc.prems by (simp add: pairStep64_other)
  qed
qed

lemma innerLoop64_eq:
  "i < length objs \<Longrightarrow> innerLoop64 objs i = objs[i := foldl UpdateVelocity64 (objs ! i) (forcesOn64 objs i)]"
  by (simp add: innerLoop64_def forcesOn64_def foldl_pairStep64)


lemma forcesOn64_cong:
  assumes "length objs' = length objs"
    and "\<And>j. j < length objs \<Longrightarrow> position (objs' ! j) = position (objs ! j) \<and> mass (objs' ! j) = mass (objs ! j)"
    and "i < length objs"
  shows "forcesOn64 objs' i = forcesOn64 objs i"
  unfolding forcesOn64_def using assms
  by (auto intro!: force64_reads_position_mass)

lemma velocityLoop64_prefix:
  "k \<le> length objs \<Longrightarrow>
   length (foldl innerLoop64 objs [0..<k]) = length objs \<and>
   (\<forall>i<length objs. foldl innerLoop64 objs [0..<k] ! i =
        (if i < k then foldl UpdateVelocity64 (objs ! i) (forcesOn64 objs i) else objs ! i))"
proof (induction k)
  case 0
  then show ?case by simp
next
  case (Suc k)
  let ?R = "foldl innerLoop64 objs [0..<k]"
  from Suc have len: "length ?R = length objs"
    and old: "\<And>i. i < length objs \<Longrightarrow>
                ?R ! i = (if i < k then foldl UpdateVelocity64 (objs ! i) (forcesOn64 objs i) else objs ! i)"
    and k: "k < length objs"
    by simp_all
  have same: "\<And>j. j < length objs \<Longrightarrow>
      position (?R ! j) = position (objs ! j) \<and> mass (?R ! j) = mass (objs ! j)"
    by (simp add: old)
  have forces: "forcesOn64 ?R k = forcesOn64 objs k"
    using len same k by (rule forcesOn64_cong)
  have step: "foldl innerLoop64 objs [0..<Suc k] =
                ?R[k := foldl UpdateVelocity64 (objs ! k) (forcesOn64 objs k)]"
    using k len forces old [OF k] by (simp add: innerLoop64_eq)
  show ?case
    unfolding step using len k old by (auto simp: nth_list_update)
qed

lemma length_velocityLoop64: "length (velocityLoop64 objs) = length objs"
  using velocityLoop64_prefix [of "length objs" objs] by (simp add: velocityLoop64_def)

lemma velocityLoop64_nth:
  "i < length objs \<Longrightarrow> velocityLoop64 objs ! i = foldl UpdateVelocity64 (objs ! i) (forcesOn64 objs i)"
  using velocityLoop64_prefix [of "length objs" objs] by (simp add: velocityLoop64_def)


lemma force64_U_V:
  "calculateGravitationalForce64 bodyU bodyV = \<lparr>X = 7745984253939762 / 2 ^ 84, Y = 0\<rparr>"
proof -
  define f :: real where "f = 7745984253939762 / 2 ^ 84"
  have g: "round64 (gravitation64 * 6) = f"
    unfolding f_def by (rule G6)
  have rf: "round64 f = f"
    unfolding f_def by (rule R_f1)
  have "calculateGravitationalForce64 bodyU bodyV = \<lparr>X = f, Y = 0\<rparr>"
    unfolding calculateGravitationalForce64_def Let_def Normalize64_def
    by (simp add: bodyU_def bodyV_def round64_0 round64_1 round64_m1 Length64_unit g rf round64_minus)
  then show ?thesis unfolding f_def .
qed

lemma Length64_two: "Length64 \<lparr>X = - 2, Y = 0\<rparr> = 2"
  by (simp add: Length64_def round64_0 round64_4 sqrt_4 round64_2)

lemma force64_U_W:
  "calculateGravitationalForce64 bodyU bodyW = \<lparr>X = 7745984253939762 / 2 ^ 87, Y = 0\<rparr>"
proof -
  define g3 :: real where "g3 = 7745984253939762 / 2 ^ 85"
  define f :: real where "f = 7745984253939762 / 2 ^ 87"
  have g: "round64 (gravitation64 * 3) = g3"
    unfolding g3_def by (rule G3)
  have rg: "round64 g3 = g3"
    unfolding g3_def by (rule R_g3)
  have q: "round64 (g3 / 4) = f"
    unfolding g3_def f_def by (rule R_g3_4)
  have rf: "round64 f = f"
    unfolding f_def by (rule R_f2)
  have "calculateGravitationalForce64 bodyU bodyW = \<lparr>X = f, Y = 0\<rparr>"
    unfolding calculateGravitationalForce64_def Let_def Normalize64_def
    by (simp add: bodyU_def bodyW_def round64_0 round64_1 round64_m1 round64_2 round64_4
        Length64_two g rg q rf round64_minus)
  then show ?thesis unfolding f_def .
qed

lemma forcesOn64_first_of_three:
  "forcesOn64 [a, b, c] 0 = [calculateGravitationalForce64 a b, calculateGravitationalForce64 a c]"
  by (simp add: forcesOn64_def upt_rec [of 0] upt_rec [of 1] upt_rec [of "Suc 0"]
      upt_rec [of 2] upt_rec [of "Suc (Suc 0)"])

lemma velocity64_in_loop:
  "velocity (velocityLoop64 [bodyU, bodyV, bodyW] ! 0) = \<lparr>X = 5744244914878425 / 2 ^ 68, Y = 0\<rparr>"
proof -
  define f1 :: real where "f1 = 7745984253939762 / 2 ^ 84"
  define f2 :: real where "f2 = 7745984253939762 / 2 ^ 87"
  define a1 :: real where "a1 = 5105995479891933 / 2 ^ 68"
  define a2 :: real where "a2 = 5105995479891933 / 2 ^ 71"
  define v2 :: real where "v2 = 5744244914878425 / 2 ^ 68"
  have F1: "calculateGravitationalForce64 bodyU bodyV = \<lparr>X = f1, Y = 0\<rparr>"
    unfolding f1_def by (rule force64_U_V)
  have F2: "calculateGravitationalForce64 bodyU bodyW = \<lparr>X = f2, Y = 0\<rparr>"
    unfolding f2_def by (rule force64_U_W)
  have r: "round64 f1 = f1" "round64 f2 = f2" "round64 (f1 * 43200) = a1" "round64 a1 = a1"
    "round64 (f2 * 43200) = a2" "round64 (a1 + a2) = v2"
    unfolding f1_def f2_def a1_def a2_def v2_def
    by (rule R_f1 R_f2 R_a1 R_a1' R_a2 R_v2)+
  have "velocityLoop64 [bodyU, bodyV, bodyW] ! 0 =
          UpdateVelocity64 (UpdateVelocity64 bodyU \<lparr>X = f1, Y = 0\<rparr>) \<lparr>X = f2, Y = 0\<rparr>"
    by (simp add: velocityLoop64_nth forcesOn64_first_of_three F1 F2)
  also have "velocity \<dots> = \<lparr>X = v2, Y = 0\<rparr>"
    by (simp add: UpdateVelocity64_def bodyU_def dt_value round64_0 r)
  finally show ?thesis unfolding v2_def .
qed

lemma velocity64_two_phase:
  "velocity (twoPhaseVelocities64 [bodyU, bodyV, bodyW] ! 0) = \<lparr>X = 5744244914878424 / 2 ^ 68, Y = 0\<rparr>"
proof -
  define f1 :: real where "f1 = 7745984253939762 / 2 ^ 84"
  define f2 :: real where "f2 = 7745984253939762 / 2 ^ 87"
  define n :: real where "n = 8714232285682232 / 2 ^ 84"
  define an :: real where "an = 5744244914878424 / 2 ^ 68"
  have F1: "calculateGravitationalForce64 bodyU bodyV = \<lparr>X = f1, Y = 0\<rparr>"
    unfolding f1_def by (rule force64_U_V)
  have F2: "calculateGravitationalForce64 bodyU bodyW = \<lparr>X = f2, Y = 0\<rparr>"
    unfolding f2_def by (rule force64_U_W)
  have r: "round64 f1 = f1" "round64 (f1 + f2) = n" "round64 n = n" "round64 (n * 43200) = an"
    "round64 an = an"
    unfolding f1_def f2_def n_def an_def
    by (rule R_f1 R_net R_net' R_an R_an')+
  have net: "NetForceOn64 [bodyU, bodyV, bodyW] 0 = \<lparr>X = n, Y = 0\<rparr>"
    by (simp add: NetForceOn64_def forcesOn64_first_of_three F1 F2 vadd64_def vzero_def round64_0 r)
  have "twoPhaseVelocities64 [bodyU, bodyV, bodyW] ! 0 =
          UpdateVelocity64 bodyU (NetForceOn64 [bodyU, bodyV, bodyW] 0)"
    by (simp add: twoPhaseVelocities64_def upt_rec [of 0])
  also have "velocity \<dots> = \<lparr>X = an, Y = 0\<rparr>"
    unfolding net by (simp add: UpdateVelocity64_def bodyU_def dt_value round64_0 r)
  finally show ?thesis unfolding an_def .
qed

subsection \<open>Bodies at the same position, bodies at distinct positions\<close>

lemma UpdateVelocityF_fields [simp]:
  "positionF (UpdateVelocityF so f) = positionF so"
  "massF (UpdateVelocityF so f) = massF so"
  "nameF (UpdateVelocityF so f) = nameF so"
  "scaledPositionF (UpdateVelocityF so f) = scaledPositionF so"
  by (simp_all add: UpdateVelocityF_def)

lemma forceF_reads_position_mass:
  "positionF a = positionF a' \<Longrightarrow> massF a = massF a' \<Longrightarrow> positionF b = positionF b' \<Longrightarrow> massF b = massF b'
   \<Longrightarrow> calculateGravitationalForceF a b = calculateGravitationalForceF a' b'"
  by (simp add: calculateGravitationalForceF_def)

lemma foldl_UpdateVelocityF_fields [simp]:
  "positionF (foldl UpdateVelocityF so fs) = positionF so"
  "massF (foldl UpdateVelocityF so fs) = massF so"
  "nameF (foldl UpdateVelocityF so fs) = nameF so"
  "scaledPositionF (foldl UpdateVelocityF so fs) = scaledPositionF so"
  by (induction fs arbitrary: so) simp_all

lemma pairStepF_self: "pairStepF i objs i = objs"
  by (simp add: pairStepF_def)

lemma pairStepF_other:
  "j \<noteq> i \<Longrightarrow> pairStepF i objs j =
     objs[i := UpdateVelocityF (objs ! i) (calculateGravitationalForceF (objs ! i) (objs ! j))]"
  by (simp add: pairStepF_def)

lemma foldl_pairStepF:
  "i < length objs \<Longrightarrow>
   foldl (pairStepF i) objs js =
     objs[i := foldl UpdateVelocityF (objs ! i)
                 (map (\<lambda>j. calculateGravitationalForceF (objs ! i) (objs ! j))
                    (filter (\<lambda>j. j \<noteq> i) js))]"
proof (induction js rule: rev_induct)
  case Nil
  then show ?case by simp
next
  case (snoc j js)
  let ?A = "foldl UpdateVelocityF (objs ! i)
                 (map (\<lambda>j. calculateGravitationalForceF (objs ! i) (objs ! j))
                    (filter (\<lambda>j. j \<noteq> i) js))"
  have fold: "foldl (pairStepF i) objs js = objs[i := ?A]"
    using snoc by simp
  show ?case
  proof (cases "j = i")
    case True
    then show ?thesis using fold by (simp add: pairStepF_self)
  next
    case False
    have "calculateGravitationalForceF ?A (objs ! j) = calculateGravitationalForceF (objs ! i) (objs ! j)"
      by (rule forceF_reads_position_mass) simp_all
    then show ?thesis
      using False fold snoc.prems by (simp add: pairStepF_other)
  qed
qed

lemma innerLoopF_eq:
  "i < length objs \<Longrightarrow> innerLoopF objs i = objs[i := foldl UpdateVelocityF (objs ! i) (forcesOnF objs i)]"
  by (simp add: innerLoopF_def forcesOnF_def foldl_pairStepF)


lemma forcesOnF_cong:
  assumes "length objs' = length objs"
    and "\<And>j. j < length objs \<Longrightarrow> positionF (objs' ! j) = positionF (objs ! j) \<and> massF (objs' ! j) = massF (objs ! j)"
    and "i < length objs"
  shows "forcesOnF objs' i = forcesOnF objs i"
  unfolding forcesOnF_def using assms
  by (auto intro!: forceF_reads_position_mass)

lemma velocityLoopF_prefix:
  "k \<le> length objs \<Longrightarrow>
   length (foldl innerLoopF objs [0..<k]) = length objs \<and>
   (\<forall>i<length objs. foldl innerLoopF objs [0..<k] ! i =
        (if i < k then foldl UpdateVelocityF (objs ! i) (forcesOnF objs i) else objs ! i))"
proof (induction k)
  case 0
  then show ?case by simp
next
  case (Suc k)
  let ?R = "foldl innerLoopF objs [0..<k]"
  from Suc have len: "length ?R = length objs"
    and old: "\<And>i. i < length objs \<Longrightarrow>
                ?R ! i = (if i < k then foldl UpdateVelocityF (objs ! i) (forcesOnF objs i) else objs ! i)"
    and k: "k < length objs"
    by simp_all
  have same: "\<And>j. j < length objs \<Longrightarrow>
      positionF (?R ! j) = positionF (objs ! j) \<and> massF (?R ! j) = massF (objs ! j)"
    by (simp add: old)
  have forces: "forcesOnF ?R k = forcesOnF objs k"
    using len same k by (rule forcesOnF_cong)
  have step: "foldl innerLoopF objs [0..<Suc k] =
                ?R[k := foldl UpdateVelocityF (objs ! k) (forcesOnF objs k)]"
    using k len forces old [OF k] by (simp add: innerLoopF_eq)
  show ?case
    unfolding step using len k old by (auto simp: nth_list_update)
qed

lemma length_velocityLoopF: "length (velocityLoopF objs) = length objs"
  using velocityLoopF_prefix [of "length objs" objs] by (simp add: velocityLoopF_def)

lemma velocityLoopF_nth:
  "i < length objs \<Longrightarrow> velocityLoopF objs ! i = foldl UpdateVelocityF (objs ! i) (forcesOnF objs i)"
  using velocityLoopF_prefix [of "length objs" objs] by (simp add: velocityLoopF_def)

lemma Length_zero: "Length \<lparr>X = 0, Y = 0\<rparr> = 0"
  by (simp add: Length_def)

lemma forceF_coincident:
  "positionF so1 = positionF so2 \<Longrightarrow> calculateGravitationalForceF so1 so2 = notANumber"
  by (simp add: calculateGravitationalForceF_def NormalizeF_def Let_def Length_zero fdiv_def
      fmul_def fneg_def notANumber_def)

lemma UpdateVelocityF_notANumber:
  "velocityF (UpdateVelocityF so notANumber) = notANumber"
  by (simp add: UpdateVelocityF_def notANumber_def fdiv_def fmul_def fadd_def split: option.splits)

lemma forceF_distinct:
  assumes "position a \<noteq> position b"
  shows "calculateGravitationalForceF (asSpaceObjectF a) (asSpaceObjectF b)
           = finiteV (calculateGravitationalForce a b)"
proof -
  let ?d = "\<lparr>X = X (position a) - X (position b), Y = Y (position a) - Y (position b)\<rparr>"
  have pos: "0 < Length ?d"
    using distinct_positions [OF assms] by (intro Length_pos) simp
  then have nz: "Length ?d \<noteq> 0" "Length ?d * Length ?d \<noteq> 0" by simp_all
  show ?thesis
    unfolding calculateGravitationalForceF_def calculateGravitationalForce_def NormalizeF_def
      Normalize_def Let_def
    using nz by (simp add: asSpaceObjectF_def fdiv_def fmul_def fneg_def finiteV_def)
qed

lemma UpdateVelocityF_finite:
  "mass so \<noteq> 0 \<Longrightarrow>
   UpdateVelocityF (asSpaceObjectF so) (finiteV f) = asSpaceObjectF (UpdateVelocity so f)"
  by (simp add: UpdateVelocityF_def UpdateVelocity_def asSpaceObjectF_def finiteV_def fdiv_def
      fmul_def fadd_def)

lemma velocityLoopF_single: "velocityLoopF [so] = [so]"
  by (simp add: velocityLoopF_def innerLoopF_def pairStepF_self)

lemma foldl_UpdateVelocityF_finite:
  "mass so \<noteq> 0 \<Longrightarrow>
   foldl UpdateVelocityF (asSpaceObjectF so) (map finiteV fs)
     = asSpaceObjectF (foldl UpdateVelocity so fs)"
  by (induction fs arbitrary: so) (simp_all add: UpdateVelocityF_finite)

lemma forcesOnF_normal:
  assumes "distinct (map position objs)" "i < length objs"
  shows "forcesOnF (map asSpaceObjectF objs) i = map finiteV (forcesOn objs i)"
proof -
  have "calculateGravitationalForceF (asSpaceObjectF (objs ! i)) (asSpaceObjectF (objs ! j))
          = finiteV (calculateGravitationalForce (objs ! i) (objs ! j))"
    if "j < length objs" "j \<noteq> i" for j
  proof (rule forceF_distinct)
    from assms that have "map position objs ! i \<noteq> map position objs ! j"
      by (simp add: nth_eq_iff_index_eq del: nth_map)
    then show "position (objs ! i) \<noteq> position (objs ! j)"
      using assms(2) that(1) by simp
  qed
  then show ?thesis
    using assms(2) by (simp add: forcesOnF_def forcesOn_def)
qed

text \<open>
  In exact arithmetic, for bodies of positive mass at distinct positions, the velocity
  loops with the non-finite values give the finite velocities of the real-valued loops.
\<close>

lemma velocityLoopF_normal:
  assumes "normal objs"
  shows "velocityLoopF (map asSpaceObjectF objs) = map asSpaceObjectF (velocityLoop objs)"
proof (rule nth_equalityI)
  show "length (velocityLoopF (map asSpaceObjectF objs)) = length (map asSpaceObjectF (velocityLoop objs))"
    by (simp add: length_velocityLoopF length_velocityLoop)
next
  fix i assume "i < length (velocityLoopF (map asSpaceObjectF objs))"
  then have i: "i < length objs" by (simp add: length_velocityLoopF)
  from assms have d: "distinct (map position objs)" and m: "mass (objs ! i) \<noteq> 0"
    using i by (auto simp: normal_def list_all_length)
  show "velocityLoopF (map asSpaceObjectF objs) ! i = map asSpaceObjectF (velocityLoop objs) ! i"
    using i
    by (simp add: velocityLoopF_nth forcesOnF_normal [OF d i] foldl_UpdateVelocityF_finite [OF m]
        length_velocityLoop velocityLoop_nth)
qed

lemma length_forcesOnF: "i < length objs \<Longrightarrow> length (forcesOnF objs i) = length objs - 1"
proof -
  assume i: "i < length objs"
  have "{j. j < length objs \<and> j \<noteq> i} = {..<length objs} - {i}" by auto
  then have "card {j. j < length objs \<and> j \<noteq> i} = length objs - 1"
    using i by simp
  moreover have "length (filter (\<lambda>j. j \<noteq> i) [0..<length objs])
                   = card {j. j < length objs \<and> j \<noteq> i}"
    using distinct_card [of "filter (\<lambda>j. j \<noteq> i) [0..<length objs]"]
    by (simp add: conj_commute)
  ultimately show ?thesis by (simp add: forcesOnF_def)
qed

lemma forcesOnF_pair:
  "forcesOnF [a, b] 0 = [calculateGravitationalForceF a b]"
  "forcesOnF [a, b] (Suc 0) = [calculateGravitationalForceF b a]"
  by (simp_all add: forcesOnF_def upt_rec [of 0] upt_rec [of 1] upt_rec [of "Suc 0"])

lemma pairStepF_coincident:
  assumes "j \<noteq> i" "i < length objs" "positionF (objs ! i) = positionF (objs ! j)"
  shows "velocityF (pairStepF i objs j ! i) = notANumber"
  using assms
  by (simp add: pairStepF_other forceF_coincident UpdateVelocityF_notANumber)


subsection \<open>The claims\<close>

text \<open>
  C1, as the code has it. In the N-body program no position is written while the
  forces are computed: the positions are the same after every round of the inner loop
  and after every round of the outer loop, every force on body \<open>i\<close> is the one computed
  from the bodies as they were before the update, and the positions are written in a
  second loop. In the two-body program the planet's position is advanced first, and the
  force on the spacecraft is computed from the planet's new position.
\<close>

theorem velocity_loop_reads_pre_tick_positions:
  "map position (foldl (pairStep i) objs js) = map position objs
   \<and> map position (foldl innerLoop objs ks) = map position objs
   \<and> map position (velocityLoop objs) = map position objs
   \<and> (i < length objs \<longrightarrow>
         velocityLoop objs ! i = foldl UpdateVelocity (objs ! i) (forcesOn objs i))
   \<and> spaceObjects (snd (Update g)) =
         positionLoop (screenWidth g) (screenHeight g) (velocityLoop (spaceObjects g))
   \<and> position2 (planet (snd (Update2 h))) =
         \<lparr>X = X (position2 (planet h)) + X (velocity2 (planet h)) * dt2,
          Y = Y (position2 (planet h)) + Y (velocity2 (planet h)) * dt2\<rparr>
   \<and> velocity2 (spacecraft (snd (Update2 h))) =
         \<lparr>X = X (velocity2 (spacecraft h))
                + (X (force2 (position2 (planet (snd (Update2 h)))) h) / mass2 (spacecraft h)) * dt2,
          Y = Y (velocity2 (spacecraft h))
                + (Y (force2 (position2 (planet (snd (Update2 h)))) h) / mass2 (spacecraft h)) * dt2\<rparr>"
  by (simp add: map_position_foldl_pairStep map_position_foldl_innerLoop velocityLoop_def
      velocityLoop_nth [unfolded velocityLoop_def] Update_def Update2_def Let_def)

theorem velocity_loop_reads_pre_tick_positions_witness:
  "0 < length [bodyA, bodyB]
   \<and> map position (velocityLoop [bodyA, bodyB]) = [\<lparr>X = 3, Y = 4\<rparr>, \<lparr>X = 0, Y = 0\<rparr>]
   \<and> velocityLoop [bodyA, bodyB] ! 0 =
       UpdateVelocity bodyA \<lparr>X = - (200229 / 5), Y = - (266972 / 5)\<rparr>"
  using velocity_loop_reads_pre_tick_positions [where i = 0 and objs = "[bodyA, bodyB]"]
  by (simp add: forcesOn_pair force_A_B) (simp add: bodyA_def bodyB_def)

text \<open>
  C1 as stated fails in the two-body program: the planet of \<open>game2\<close> is at the origin
  before the update, and the velocity that the update gives the spacecraft is not the one
  that the force computed from that position gives.
\<close>

theorem Update2_force_reads_moved_planet:
  "position2 (planet game2) = \<lparr>X = 0, Y = 0\<rparr>
   \<and> force2 (position2 (planet game2)) game2 = \<lparr>X = - (200229 / 125), Y = - (266972 / 125)\<rparr>
   \<and> velocity2 (spacecraft (snd (Update2 game2))) = \<lparr>X = 0, Y = - 6006870\<rparr>
   \<and> velocity2 (spacecraft (snd (Update2 game2))) \<noteq>
       \<lparr>X = X (velocity2 (spacecraft game2))
              + (X (force2 (position2 (planet game2)) game2) / mass2 (spacecraft game2)) * dt2,
        Y = Y (velocity2 (spacecraft game2))
              + (Y (force2 (position2 (planet game2)) game2) / mass2 (spacecraft game2)) * dt2\<rparr>"
proof -
  have p: "position2 (planet game2) = \<lparr>X = 0, Y = 0\<rparr>"
    by (simp add: game2_def)
  show ?thesis
    unfolding Update2_game2 p force2_game2_pre
    by (simp add: game2_def dt2_value)
qed

text \<open>
  C2, as the code has it. In the N-body program one update applies to the velocity
  of every body the forces of all other bodies, one after the other, which in exact
  arithmetic is their net force, and then moves the body by the new velocity; the number
  of bodies stays the same. In the two-body program only the
  spacecraft is subject to gravity: the planet keeps its velocity and drifts.
\<close>

theorem every_body_is_integrated:
  "(i < length (spaceObjects g) \<longrightarrow>
      spaceObjects (snd (Update g)) ! i =
        positionStep (screenWidth g) (screenHeight g)
          (foldl UpdateVelocity (spaceObjects g ! i) (forcesOn (spaceObjects g) i))
      \<and> spaceObjects (snd (Update g)) ! i =
        positionStep (screenWidth g) (screenHeight g)
          (UpdateVelocity (spaceObjects g ! i) (NetForceOn (spaceObjects g) i)))
   \<and> length (spaceObjects (snd (Update g))) = length (spaceObjects g)
   \<and> planet (snd (Update2 h)) =
        (planet h)\<lparr>position2 :=
           \<lparr>X = X (position2 (planet h)) + X (velocity2 (planet h)) * dt2,
            Y = Y (position2 (planet h)) + Y (velocity2 (planet h)) * dt2\<rparr>\<rparr>
   \<and> mass2 (spacecraft (snd (Update2 h))) = mass2 (spacecraft h)"
  by (simp add: Update_nth length_Update foldl_UpdateVelocity_net NetForceOn_def
      Update2_def Let_def)

theorem every_body_is_integrated_witness:
  "0 < length (spaceObjects world)
   \<and> velocity (spaceObjects (snd (Update world)) ! 0) =
       \<lparr>X = - (200229 / 5) / 10 ^ 15 * 43200, Y = - (266972 / 5) / 10 ^ 15 * 43200\<rparr>
   \<and> position (spaceObjects (snd (Update world)) ! 0) =
       \<lparr>X = 3 + (- (200229 / 5) / 10 ^ 15 * 43200) * 43200,
        Y = 4 + (- (266972 / 5) / 10 ^ 15 * 43200) * 43200\<rparr>"
  using every_body_is_integrated [where i = 0 and g = world]
  by (simp add: world_def NetForceOn_def forcesOn_pair force_A_B vadd_def vzero_def
      positionStep_def UpdatePosition_def UpdateVelocity_def Let_def dt_value)
     (simp add: bodyA_def)

text \<open>
  C2 as stated fails in the two-body program: the update of \<open>game2\<close> changes the
  velocity of the spacecraft and leaves the velocity of the planet as it was.
\<close>

theorem Update2_planet_exempt:
  "velocity2 (planet (snd (Update2 game2))) = velocity2 (planet game2)
   \<and> velocity2 (spacecraft game2) = \<lparr>X = 0, Y = 0\<rparr>
   \<and> velocity2 (spacecraft (snd (Update2 game2))) = \<lparr>X = 0, Y = - 6006870\<rparr>"
  unfolding Update2_game2 by (simp add: game2_def)






text \<open>
  C5, as the code has it. In exact arithmetic, for two bodies at distinct positions,
  the force on \<open>b\<close> due to \<open>a\<close> is the componentwise negation of the force on \<open>a\<close> due
  to \<open>b\<close>: the two forces add up to the zero vector.
\<close>

theorem force_antisymmetry:
  "position a \<noteq> position b \<Longrightarrow>
   calculateGravitationalForce b a =
     \<lparr>X = - X (calculateGravitationalForce a b), Y = - Y (calculateGravitationalForce a b)\<rparr>
   \<and> X (calculateGravitationalForce a b) + X (calculateGravitationalForce b a) = 0
   \<and> Y (calculateGravitationalForce a b) + Y (calculateGravitationalForce b a) = 0"
  using force_antisymmetric [of b a] by simp

theorem force_antisymmetry_witness:
  "position bodyA \<noteq> position bodyB
   \<and> calculateGravitationalForce bodyA bodyB = \<lparr>X = - (200229 / 5), Y = - (266972 / 5)\<rparr>
   \<and> calculateGravitationalForce bodyB bodyA = \<lparr>X = 200229 / 5, Y = 266972 / 5\<rparr>"
proof -
  have ne: "position bodyA \<noteq> position bodyB"
    by (simp add: bodyA_def bodyB_def)
  from force_antisymmetry [OF ne] ne show ?thesis
    by (simp add: force_A_B)
qed

text \<open>
  C5 as stated fails in \<^verbatim>\<open>float64\<close> arithmetic: for the masses 3 and 7 at distance 1
  the two products round to neighbouring numbers, and the two forces differ in the last
  bit of the significand.
\<close>

theorem float64_force_not_antisymmetric:
  "calculateGravitationalForce64 bodyP bodyQ = \<lparr>X = - (6777736222197291 / 2 ^ 82), Y = 0\<rparr>
   \<and> calculateGravitationalForce64 bodyQ bodyP = \<lparr>X = 6777736222197292 / 2 ^ 82, Y = 0\<rparr>
   \<and> calculateGravitationalForce64 bodyP bodyQ \<noteq>
       \<lparr>X = - X (calculateGravitationalForce64 bodyQ bodyP),
        Y = - Y (calculateGravitationalForce64 bodyQ bodyP)\<rparr>"
  unfolding force64_P_Q force64_Q_P by simp

text \<open>
  C6, as the code has it. In the N-body program with two bodies, total momentum is the
  same after any number of updates, as long as the masses are positive and the two
  bodies are at distinct positions at the start of each of these updates.
\<close>

theorem two_body_momentum_conserved:
  "length (spaceObjects g) = 2 \<Longrightarrow> normalRun n g \<Longrightarrow>
   momentum (spaceObjects (run n g)) = momentum (spaceObjects g)"
proof (induction n arbitrary: g)
  case 0
  then show ?case by simp
next
  case (Suc n)
  from Suc.prems have len: "length (spaceObjects (snd (Update g))) = 2"
    by (simp add: length_Update)
  from Suc.prems have "normalRun n (snd (Update g))" by simp
  with len have "momentum (spaceObjects (run n (snd (Update g))))
                   = momentum (spaceObjects (snd (Update g)))"
    by (rule Suc.IH)
  also have "\<dots> = momentum (spaceObjects g)"
    using Suc.prems by (simp add: momentum_Update_pair)
  finally show ?case by simp
qed

theorem two_body_momentum_conserved_witness:
  "length (spaceObjects world) = 2 \<and> normalRun 2 world
   \<and> momentum (spaceObjects (run 2 world)) = \<lparr>X = 0, Y = 0\<rparr>"
proof -
  have len: "length (spaceObjects world) = 2"
    by (simp add: world_def)
  have nr: "normalRun 2 world"
    by (simp add: numeral_2_eq_2 normal_world normal_Update_world)
  have "momentum (spaceObjects world) = \<lparr>X = 0, Y = 0\<rparr>"
    by (simp add: momentum_def world_def bodyA_def bodyB_def)
  with two_body_momentum_conserved [OF len nr] len nr show ?thesis by simp
qed

text \<open>
  C6 as stated fails in the two-body program, where gravity acts on the spacecraft
  alone: the update of \<open>game2\<close> changes the total momentum.
\<close>

theorem Update2_changes_momentum:
  "momentum2 game2 = \<lparr>X = 10 ^ 15 / 480, Y = 0\<rparr>
   \<and> momentum2 (snd (Update2 game2)) = \<lparr>X = 10 ^ 15 / 480, Y = - 6006870\<rparr>
   \<and> momentum2 (snd (Update2 game2)) \<noteq> momentum2 game2"
  unfolding Update2_game2 by (simp add: momentum2_def game2_def)

text \<open>
  C7: a body exerts no force on itself. The pair \<open>(i, i)\<close> is skipped by the comparison
  of the two indices, whatever the positions are, and no other pair is skipped: for two
  distinct bodies at the same position the force is computed and applied, and the
  velocity is no longer a number afterwards. So the velocity of body \<open>i\<close> receives one
  force for each of the other bodies, and in a world of one body there is no force: the
  net force is the zero vector and the update leaves the velocity as it was.
\<close>

theorem no_force_on_itself:
  "pairStepF i objs i = objs
   \<and> (j \<noteq> i \<and> i < length objs \<and> j < length objs
        \<and> positionF (objs ! i) = positionF (objs ! j) \<longrightarrow>
         velocityF (pairStepF i objs j ! i) = notANumber)
   \<and> (i < length objs \<longrightarrow>
         velocityLoopF objs ! i = foldl UpdateVelocityF (objs ! i) (forcesOnF objs i)
         \<and> length (forcesOnF objs i) = length objs - 1)
   \<and> velocityLoopF [soF] = [soF]
   \<and> (k < length bodies \<longrightarrow>
         velocityLoop bodies ! k = foldl UpdateVelocity (bodies ! k) (forcesOn bodies k)
         \<and> length (forcesOn bodies k) = length bodies - 1)
   \<and> forcesOn [so] 0 = [] \<and> NetForceOn [so] 0 = vzero
   \<and> velocityLoop [so] = [so]
   \<and> map velocity (spaceObjects (snd (Update (g\<lparr>spaceObjects := [so]\<rparr>)))) = [velocity so]"
proof -
  have len: "k < length bodies \<Longrightarrow> length (forcesOn bodies k) = length bodies - 1"
  proof -
    assume k: "k < length bodies"
    have "{j. j < length bodies \<and> j \<noteq> k} = {..<length bodies} - {k}" by auto
    then have "card {j. j < length bodies \<and> j \<noteq> k} = length bodies - 1"
      using k by simp
    moreover have "length (filter (\<lambda>j. j \<noteq> k) [0..<length bodies])
                     = card {j. j < length bodies \<and> j \<noteq> k}"
      using distinct_card [of "filter (\<lambda>j. j \<noteq> k) [0..<length bodies]"]
      by (simp add: conj_commute)
    ultimately show ?thesis by (simp add: forcesOn_def)
  qed
  have step: "map velocity (spaceObjects (snd (Update (g\<lparr>spaceObjects := [so]\<rparr>)))) = [velocity so]"
    by (simp add: Update_def velocityLoop_single positionLoop_def positionStep_def
        UpdatePosition_def Let_def)
  show ?thesis
    using len step
    by (simp add: pairStepF_self pairStepF_coincident velocityLoopF_nth length_forcesOnF
        velocityLoopF_single velocityLoop_nth forcesOn_single
        NetForceOn_def velocityLoop_single)
qed

theorem no_force_on_itself_witness:
  "Suc 0 \<noteq> 0 \<and> 0 < length [twinA, twinB] \<and> Suc 0 < length [twinA, twinB]
   \<and> positionF ([twinA, twinB] ! 0) = positionF ([twinA, twinB] ! Suc 0)
   \<and> velocityF twinA = \<lparr>XF = Some 0, YF = Some 0\<rparr>
   \<and> velocityF (pairStepF 0 [twinA, twinB] (Suc 0) ! 0) = \<lparr>XF = None, YF = None\<rparr>
   \<and> pairStepF 0 [twinA, twinB] 0 = [twinA, twinB]
   \<and> length (forcesOnF [twinA, twinB] 0) = 1
   \<and> velocityF (velocityLoopF [twinA, twinB] ! 0) = \<lparr>XF = None, YF = None\<rparr>
   \<and> 0 < length [bodyA, bodyB]
   \<and> velocityLoop [bodyA, bodyB] ! 0 =
       UpdateVelocity bodyA \<lparr>X = - (200229 / 5), Y = - (266972 / 5)\<rparr>
   \<and> length (forcesOn [bodyA, bodyB] 0) = 1
   \<and> map velocity (spaceObjects (snd (Update (world\<lparr>spaceObjects := [bodyA]\<rparr>))))
       = [\<lparr>X = 0, Y = 0\<rparr>]"
proof -
  have c: "positionF ([twinA, twinB] ! 0) = positionF ([twinA, twinB] ! Suc 0)"
    by (simp add: twinA_def twinB_def)
  have v: "velocityF twinA = \<lparr>XF = Some 0, YF = Some 0\<rparr>"
    by (simp add: twinA_def)
  from no_force_on_itself [where i = 0 and j = "Suc 0" and objs = "[twinA, twinB]"
      and bodies = "[bodyA, bodyB]" and k = 0 and so = bodyA and g = world] c v
  show ?thesis
    by (simp add: notANumber_def forcesOn_pair force_A_B forcesOnF_pair
        forceF_coincident [of twinA twinB] UpdateVelocityF_notANumber [unfolded notANumber_def])
       (simp add: bodyA_def twinA_def twinB_def)
qed

text \<open>
  C8: the update is deterministic and has no hidden input. Two games with the same
  masses, positions, velocities and time, whatever their names, scaled positions and
  window sizes are, return the same error value and have the same masses, positions,
  velocities and time after one update and after any number of updates; the same holds
  in the two-body program.
\<close>

theorem Update_deterministic:
  "(samePhysics g g' \<longrightarrow>
      fst (Update g) = fst (Update g')
      \<and> samePhysics (snd (Update g)) (snd (Update g'))
      \<and> samePhysics (run n g) (run n g'))
   \<and> (samePhysics2 h h' \<longrightarrow>
      fst (Update2 h) = fst (Update2 h')
      \<and> samePhysics2 (snd (Update2 h)) (snd (Update2 h')))"
proof -
  have "fst (Update g) = fst (Update g')"
    by (simp add: Update_def)
  moreover have "fst (Update2 h) = fst (Update2 h')"
    by (simp add: Update2_def Let_def)
  ultimately show ?thesis
    by (simp add: samePhysics_Update samePhysics_run samePhysics2_Update2)
qed

theorem Update_deterministic_witness:
  "samePhysics world worldRenamed \<and> world \<noteq> worldRenamed
   \<and> samePhysics (snd (Update world)) (snd (Update worldRenamed))
   \<and> samePhysics (run 3 world) (run 3 worldRenamed)
   \<and> samePhysics2 game2 (game2\<lparr>screenWidth2 := 0\<rparr>)
   \<and> samePhysics2 (snd (Update2 game2)) (snd (Update2 (game2\<lparr>screenWidth2 := 0\<rparr>)))"
proof -
  have a: "samePhysics world worldRenamed"
    by (simp add: samePhysics_def world_def worldRenamed_def physics_def)
  have b: "samePhysics2 game2 (game2\<lparr>screenWidth2 := 0\<rparr>)"
    by (simp add: samePhysics2_def)
  have c: "world \<noteq> worldRenamed"
    by (simp add: world_def worldRenamed_def)
  from Update_deterministic [where g = world and g' = worldRenamed and n = 3
      and h = game2 and h' = "game2\<lparr>screenWidth2 := 0\<rparr>"] a b c
  show ?thesis by blast
qed

text \<open>
  C9: the update signals no error: in both programs the returned \<^verbatim>\<open>error\<close> is
  \<^verbatim>\<open>nil\<close> for every game, and the only other result is the game with its bodies
  and its clock advanced.
\<close>

theorem Update_returns_nil:
  "fst (Update g) = None \<and> fst (Update2 g2) = None
   \<and> time (snd (Update g)) = time g + dt \<and> time2 (snd (Update2 g2)) = time2 g2 + dt2"
  by (simp add: Update_def Update2_def Let_def)

text \<open>
  C10, as the code has it. In exact arithmetic, updating the velocity inside the loop
  over the pairs gives the state of the strict two-phase step, which first computes every
  net force from the bodies as they were before the step, then updates every velocity,
  then every position. In \<^verbatim>\<open>float64\<close> arithmetic the loop gives every body the velocity
  that the forces of the other bodies, computed from the bodies as they were before the
  step, give it when they are applied one after the other.
\<close>

theorem in_loop_update_refines_two_phase:
  "snd (Update g) = twoPhaseStep g
   \<and> length (velocityLoop64 objs) = length objs
   \<and> (i < length objs \<longrightarrow>
         velocityLoop64 objs ! i = foldl UpdateVelocity64 (objs ! i) (forcesOn64 objs i))"
  by (simp add: Update_def twoPhaseStep_def Let_def velocityLoop_two_phase
      length_velocityLoop64 velocityLoop64_nth)

theorem in_loop_update_refines_two_phase_witness:
  "0 < length [bodyU, bodyV, bodyW]
   \<and> velocityLoop64 [bodyU, bodyV, bodyW] ! 0 =
       UpdateVelocity64 (UpdateVelocity64 bodyU \<lparr>X = 7745984253939762 / 2 ^ 84, Y = 0\<rparr>)
         \<lparr>X = 7745984253939762 / 2 ^ 87, Y = 0\<rparr>"
  using in_loop_update_refines_two_phase [where i = 0 and objs = "[bodyU, bodyV, bodyW]"]
  by (simp add: forcesOn64_first_of_three force64_U_V force64_U_W)

text \<open>
  C10 as stated fails in \<^verbatim>\<open>float64\<close> arithmetic: for three bodies the velocity that
  the two forces give the first body, one after the other, and the velocity that their
  accumulated sum gives it differ in the last bit of the significand.
\<close>

theorem float64_in_loop_differs_from_two_phase:
  "velocity (velocityLoop64 [bodyU, bodyV, bodyW] ! 0) = \<lparr>X = 5744244914878425 / 2 ^ 68, Y = 0\<rparr>
   \<and> velocity (twoPhaseVelocities64 [bodyU, bodyV, bodyW] ! 0)
        = \<lparr>X = 5744244914878424 / 2 ^ 68, Y = 0\<rparr>
   \<and> velocityLoop64 [bodyU, bodyV, bodyW] \<noteq> twoPhaseVelocities64 [bodyU, bodyV, bodyW]"
proof -
  have "velocity (velocityLoop64 [bodyU, bodyV, bodyW] ! 0)
          \<noteq> velocity (twoPhaseVelocities64 [bodyU, bodyV, bodyW] ! 0)"
    unfolding velocity64_in_loop velocity64_two_phase by simp
  then have "velocityLoop64 [bodyU, bodyV, bodyW] \<noteq> twoPhaseVelocities64 [bodyU, bodyV, bodyW]"
    by auto
  then show ?thesis
    using velocity64_in_loop velocity64_two_phase by simp
qed

end
